theory Spec2Isabelle
  imports Complex_Main
begin

section \<open>DNS latency probe (dns-delay-testing.py)\<close>

text \<open>
  The program times one A-record query per attempt against a name server given as
  \<^verbatim>\<open>host\<close> or \<^verbatim>\<open>host:port\<close>, after a TCP reachability check of the
  resolved address, and sums the attempts up. Python strings are modelled as
  \<^typ>\<open>string\<close> holding the UTF-8 bytes of the text; the Chinese literals of the source
  are written as their bytes. The network, the clock and the dnspython and socket
  libraries are not part of the repository: every call into them is a field of the
  record \<open>env\<close>, which says for one attempt what each call returns or raises.
  Only exceptions below \<^verbatim>\<open>Exception\<close> are modelled (no KeyboardInterrupt), and
  \<^verbatim>\<open>print\<close>, string formatting and plain attribute assignment are taken not to raise.
\<close>

subsection \<open>Exceptions and values\<close>

text \<open>
  An exception raised by a library call: whether it is an instance of
  \<^verbatim>\<open>socket.gaierror\<close>, the name of its class and its \<^verbatim>\<open>str()\<close>.
\<close>

datatype lib_exc = LibExc (is_gaierror: bool) (type_name: string) (message: string)

text \<open>
  What can leave a function of the program: the ValueError of \<^verbatim>\<open>int()\<close> (with the
  rejected literal), the ZeroDivisionError of \<^verbatim>\<open>/\<close>, or a library exception.
\<close>

datatype exc = ValueError string | ZeroDivisionError | Library lib_exc

text \<open>The second component of an attempt's result is a float or a string.\<close>

datatype pyval = Float real | Str string

datatype event =
    SockOpen
  | SockClose
  | Print string
  | SysQuery string
  | Query string int string
  | Sleep

subsection \<open>String operations of Python\<close>

text \<open>
  The whitespace that \<^verbatim>\<open>int()\<close> skips around an ASCII literal: tab, line feed,
  vertical tab, form feed, carriage return and space. The separators 0x1C to 0x1F
  are not among them.
\<close>

definition is_space :: "char \<Rightarrow> bool" where
  "is_space c = (c \<in> set [CHR 0x09, CHR 0x0A, CHR 0x0B, CHR 0x0C, CHR 0x0D, CHR 0x20])"

definition strip :: "string \<Rightarrow> string" where
  "strip s = rev (dropWhile is_space (rev (dropWhile is_space s)))"

definition digit_val :: "char \<Rightarrow> nat option" where
  "digit_val c =
     map_of [(CHR ''0'', 0), (CHR ''1'', 1), (CHR ''2'', 2), (CHR ''3'', 3), (CHR ''4'', 4),
             (CHR ''5'', 5), (CHR ''6'', 6), (CHR ''7'', 7), (CHR ''8'', 8), (CHR ''9'', 9)] c"

text \<open>
  The digits of a decimal literal after its first digit: a single underscore may stand
  between two digits.
\<close>

fun digits_value :: "nat \<Rightarrow> string \<Rightarrow> nat option" where
  "digits_value acc [] = Some acc"
| "digits_value acc [c] =
     (case digit_val c of None \<Rightarrow> None | Some v \<Rightarrow> Some (acc * 10 + v))"
| "digits_value acc (c # d # ds) =
     (if c = CHR ''_'' then
        (case digit_val d of None \<Rightarrow> None | Some v \<Rightarrow> digits_value (acc * 10 + v) ds)
      else
        (case digit_val c of None \<Rightarrow> None | Some v \<Rightarrow> digits_value (acc * 10 + v) (d # ds)))"

definition parse_digits :: "string \<Rightarrow> nat option" where
  "parse_digits s =
     (case s of
        [] \<Rightarrow> None
      | c # cs \<Rightarrow> (case digit_val c of None \<Rightarrow> None | Some v \<Rightarrow> digits_value v cs))"

text \<open>A string of ASCII characters: no byte has its top bit set.\<close>

definition is_ascii :: "string \<Rightarrow> bool" where
  "is_ascii s = list_all (\<lambda>c. \<not> digit7 c) s"

text \<open>
  The limit on the digits of a literal (\<^verbatim>\<open>sys.get_int_max_str_digits()\<close>, 4300
  unless set otherwise; 0 is no limit, as in the interpreters that have none). It
  counts the digits, leading zeros too, not the underscores, and applies above 640
  digits only.
\<close>

definition digit_count :: "string \<Rightarrow> nat" where
  "digit_count body = length (filter (\<lambda>c. c \<noteq> CHR ''_'') body)"

definition over_digit_limit :: "nat \<Rightarrow> string \<Rightarrow> bool" where
  "over_digit_limit max_digits body =
     (640 < digit_count body \<and> 0 < max_digits \<and> max_digits < digit_count body)"

text \<open>
  \<^verbatim>\<open>int(s)\<close> on a string, base 10. For an ASCII string: surrounding whitespace is
  dropped, one sign is allowed, then come the digits, within the limit given. A
  string with a character outside ASCII is first rewritten by the interpreter with
  its tables of Unicode whitespace and decimal digits; what \<^verbatim>\<open>int\<close> makes of such
  a string is the parameter \<open>non_ascii\<close> (\<open>None\<close> for the ValueError).
\<close>

definition py_int :: "nat \<Rightarrow> (string \<Rightarrow> int option) \<Rightarrow> string \<Rightarrow> exc + int" where
  "py_int max_digits non_ascii s =
     (if is_ascii s then
        (let t = strip s;
             neg = (case t of [] \<Rightarrow> False | c # cs \<Rightarrow> c = CHR ''-'');
             body = (case t of [] \<Rightarrow> t | c # cs \<Rightarrow> if c = CHR ''-'' \<or> c = CHR ''+'' then cs else t)
         in case parse_digits body of
              None \<Rightarrow> Inl (ValueError s)
            | Some n \<Rightarrow>
                if over_digit_limit max_digits body then Inl (ValueError s)
                else Inr (if neg then - int n else int n))
      else
        (case non_ascii s of
           None \<Rightarrow> Inl (ValueError s)
         | Some n \<Rightarrow> Inr n))"

text \<open>\<^verbatim>\<open>s.split(sep, 1)\<close> for a string that contains the separator.\<close>

definition split_first :: "char \<Rightarrow> string \<Rightarrow> string \<times> string" where
  "split_first sep s = (takeWhile (\<lambda>c. c \<noteq> sep) s, tl (dropWhile (\<lambda>c. c \<noteq> sep) s))"

text \<open>\<^verbatim>\<open>str(n)\<close> for an integer.\<close>

definition digit_char :: "nat \<Rightarrow> char" where
  "digit_char d = (''0123456789'' ! d)"

fun str_nat :: "nat \<Rightarrow> string" where
  "str_nat n = (if n < 10 then [digit_char n] else str_nat (n div 10) @ [digit_char (n mod 10)])"

declare str_nat.simps [simp del]

definition str_int :: "int \<Rightarrow> string" where
  "str_int i = (if i < 0 then CHR ''-'' # str_nat (nat (- i)) else str_nat (nat i))"

text \<open>
  \<^verbatim>\<open>s.lower()\<close>: the letters A to Z are lowered, every other byte is kept. Python
  lowers letters outside ASCII too; none of them becomes a letter of \<^verbatim>\<open>timeout\<close>
  or \<^verbatim>\<open>refused\<close> in a place where it could complete one of these words, so the
  two tests of the source come out the same.
\<close>

definition lower_char :: "char \<Rightarrow> char" where
  "lower_char c =
     (case map_of (zip ''ABCDEFGHIJKLMNOPQRSTUVWXYZ'' ''abcdefghijklmnopqrstuvwxyz'') c of
        None \<Rightarrow> c
      | Some l \<Rightarrow> l)"

definition lower :: "string \<Rightarrow> string" where
  "lower s = map lower_char s"

fun starts_with :: "string \<Rightarrow> string \<Rightarrow> bool" where
  "starts_with [] s = True"
| "starts_with (p # ps) [] = False"
| "starts_with (p # ps) (c # cs) = (p = c \<and> starts_with ps cs)"

text \<open>\<^verbatim>\<open>needle in s\<close>.\<close>

fun contains :: "string \<Rightarrow> string \<Rightarrow> bool" where
  "contains needle [] = (needle = [])"
| "contains needle (c # cs) = (starts_with needle (c # cs) \<or> contains needle cs)"

text \<open>\<^verbatim>\<open>sep.join(xs)\<close>.\<close>

fun join :: "string \<Rightarrow> string list \<Rightarrow> string" where
  "join sep [] = []"
| "join sep [x] = x"
| "join sep (x # y # ys) = x @ sep @ join sep (y # ys)"

subsection \<open>The texts of the source, as UTF-8 bytes\<close>

definition txt_port_exception :: string where
  "txt_port_exception =
    [CHR 0x20, CHR 0x20, CHR 0xE7, CHR 0xAB, CHR 0xAF, CHR 0xE5,
     CHR 0x8F, CHR 0xA3, CHR 0xE8, CHR 0xBF, CHR 0x9E, CHR 0xE6,
     CHR 0x8E, CHR 0xA5, CHR 0xE6, CHR 0xB5, CHR 0x8B, CHR 0xE8,
     CHR 0xAF, CHR 0x95, CHR 0xE5, CHR 0xBC, CHR 0x82, CHR 0xE5,
     CHR 0xB8, CHR 0xB8, CHR 0x3A, CHR 0x20]"

definition txt_server_ip :: string where
  "txt_server_ip =
    [CHR 0x20, CHR 0x20, CHR 0xE6, CHR 0x9C, CHR 0x8D, CHR 0xE5,
     CHR 0x8A, CHR 0xA1, CHR 0xE5, CHR 0x99, CHR 0xA8, CHR 0x49,
     CHR 0x50, CHR 0x3A, CHR 0x20]"

definition txt_port :: string where
  "txt_port =
    [CHR 0x2C, CHR 0x20, CHR 0xE7, CHR 0xAB, CHR 0xAF, CHR 0xE5,
     CHR 0x8F, CHR 0xA3, CHR 0x3A, CHR 0x20]"

definition txt_port_state :: string where
  "txt_port_state =
    [CHR 0x2C, CHR 0x20, CHR 0xE7, CHR 0xAB, CHR 0xAF, CHR 0xE5,
     CHR 0x8F, CHR 0xA3, CHR 0xE8, CHR 0xBF, CHR 0x9E, CHR 0xE6,
     CHR 0x8E, CHR 0xA5, CHR 0xE7, CHR 0x8A, CHR 0xB6, CHR 0xE6,
     CHR 0x80, CHR 0x81, CHR 0x3A, CHR 0x20]"

definition txt_open :: string where
  "txt_open =
    [CHR 0xE5, CHR 0xBC, CHR 0x80, CHR 0xE6, CHR 0x94, CHR 0xBE]"

definition txt_closed :: string where
  "txt_closed =
    [CHR 0xE5, CHR 0x85, CHR 0xB3, CHR 0xE9, CHR 0x97, CHR 0xAD,
     CHR 0xE6, CHR 0x88, CHR 0x96, CHR 0xE6, CHR 0x97, CHR 0xA0,
     CHR 0xE6, CHR 0xB3, CHR 0x95, CHR 0xE8, CHR 0xBF, CHR 0x9E,
     CHR 0xE6, CHR 0x8E, CHR 0xA5]"

definition txt_port_prefix :: string where
  "txt_port_prefix =
    [CHR 0xE7, CHR 0xAB, CHR 0xAF, CHR 0xE5, CHR 0x8F, CHR 0xA3]"

definition txt_unreachable :: string where
  "txt_unreachable =
    [CHR 0xE6, CHR 0x97, CHR 0xA0, CHR 0xE6, CHR 0xB3, CHR 0x95,
     CHR 0xE8, CHR 0xBF, CHR 0x9E, CHR 0xE6, CHR 0x8E, CHR 0xA5]"

definition clause_port_open :: string where
  "clause_port_open =
    [CHR 0xE7, CHR 0xAB, CHR 0xAF, CHR 0xE5, CHR 0x8F, CHR 0xA3,
     CHR 0xE5, CHR 0xBC, CHR 0x80, CHR 0xE6, CHR 0x94, CHR 0xBE,
     CHR 0xE4, CHR 0xBD, CHR 0x86, CHR 0x44, CHR 0x4E, CHR 0x53,
     CHR 0xE6, CHR 0x9C, CHR 0x8D, CHR 0xE5, CHR 0x8A, CHR 0xA1,
     CHR 0xE5, CHR 0x8F, CHR 0xAF, CHR 0xE8, CHR 0x83, CHR 0xBD,
     CHR 0xE6, CHR 0x9C, CHR 0xAA, CHR 0xE6, CHR 0xAD, CHR 0xA3,
     CHR 0xE5, CHR 0xB8, CHR 0xB8, CHR 0xE5, CHR 0xB7, CHR 0xA5,
     CHR 0xE4, CHR 0xBD, CHR 0x9C]"

definition hint_timeout :: string where
  "hint_timeout =
    [CHR 0xE6, CHR 0x9C, CHR 0x8D, CHR 0xE5, CHR 0x8A, CHR 0xA1,
     CHR 0xE5, CHR 0x99, CHR 0xA8, CHR 0xE5, CHR 0x93, CHR 0x8D,
     CHR 0xE5, CHR 0xBA, CHR 0x94, CHR 0xE7, CHR 0xBC, CHR 0x93,
     CHR 0xE6, CHR 0x85, CHR 0xA2, CHR 0xE3, CHR 0x80, CHR 0x81,
     CHR 0xE7, CHR 0xBD, CHR 0x91, CHR 0xE7, CHR 0xBB, CHR 0x9C,
     CHR 0xE8, CHR 0xBF, CHR 0x9E, CHR 0xE6, CHR 0x8E, CHR 0xA5,
     CHR 0xE9, CHR 0x97, CHR 0xAE, CHR 0xE9, CHR 0xA2, CHR 0x98,
     CHR 0xE6, CHR 0x88, CHR 0x96, CHR 0xE9, CHR 0x98, CHR 0xB2,
     CHR 0xE7, CHR 0x81, CHR 0xAB, CHR 0xE5, CHR 0xA2, CHR 0x99,
     CHR 0xE9, CHR 0x99, CHR 0x90, CHR 0xE5, CHR 0x88, CHR 0xB6]"

definition hint_refused :: string where
  "hint_refused =
    [CHR 0xE6, CHR 0x9C, CHR 0x8D, CHR 0xE5, CHR 0x8A, CHR 0xA1,
     CHR 0xE5, CHR 0x99, CHR 0xA8, CHR 0xE6, CHR 0x8B, CHR 0x92,
     CHR 0xE7, CHR 0xBB, CHR 0x9D, CHR 0xE8, CHR 0xBF, CHR 0x9E,
     CHR 0xE6, CHR 0x8E, CHR 0xA5, CHR 0xE3, CHR 0x80, CHR 0x81,
     CHR 0xE8, CHR 0xAE, CHR 0xBF, CHR 0xE9, CHR 0x97, CHR 0xAE,
     CHR 0xE6, CHR 0x9D, CHR 0x83, CHR 0xE9, CHR 0x99, CHR 0x90,
     CHR 0xE9, CHR 0x97, CHR 0xAE, CHR 0xE9, CHR 0xA2, CHR 0x98]"

definition txt_cause :: string where
  "txt_cause =
    [CHR 0x0A, CHR 0xE5, CHR 0x8F, CHR 0xAF, CHR 0xE8, CHR 0x83,
     CHR 0xBD, CHR 0xE5, CHR 0x8E, CHR 0x9F, CHR 0xE5, CHR 0x9B,
     CHR 0xA0, CHR 0x3A, CHR 0x20]"

subsection \<open>The environment of one attempt\<close>

text \<open>
  One field per call that leaves the program. \<open>None\<close> or \<open>Inr\<close> is a normal return,
  \<open>Some\<close> or \<open>Inl\<close> the exception raised.
  \<^item> \<open>int_max_str_digits\<close>, \<open>int_non_ascii\<close>: the two parameters of \<open>py_int\<close>,
    which belong to the interpreter;
  \<^item> \<open>new_Resolver\<close>: \<^verbatim>\<open>dns.resolver.Resolver()\<close>, which reads the system's
    resolver configuration;
  \<^item> \<open>gethostbyname\<close>: \<^verbatim>\<open>socket.gethostbyname(host)\<close>;
  \<^item> \<open>system_resolve\<close>: \<^verbatim>\<open>str(system_resolver.resolve(host, 'A')[0])\<close> with the
    timeout and lifetime given;
  \<^item> \<open>socket_new\<close>, \<open>settimeout\<close>, \<open>connect_ex\<close>, \<open>sock_close\<close>: the four socket
    calls of the port check; \<open>connect_ex\<close> returns the error code of the connect;
  \<^item> \<open>set_nameservers\<close>: the assignment to the property \<^verbatim>\<open>resolver.nameservers\<close>,
    whose setter checks its argument in dnspython;
  \<^item> \<open>resolve\<close>: \<^verbatim>\<open>resolver.resolve(domain, 'A')\<close> on a resolver with the name
    server, port and timeout given;
  \<^item> \<open>perf_counter\<close>: the two readings of the clock around the query.
\<close>

record env =
  int_max_str_digits :: nat
  int_non_ascii :: "string \<Rightarrow> int option"
  new_Resolver :: "lib_exc option"
  gethostbyname :: "string \<Rightarrow> lib_exc + string"
  system_resolve :: "string \<Rightarrow> int \<Rightarrow> lib_exc + string"
  socket_new :: "lib_exc option"
  settimeout :: "int \<Rightarrow> lib_exc option"
  connect_ex :: "string \<Rightarrow> int \<Rightarrow> lib_exc + int"
  sock_close :: "lib_exc option"
  set_nameservers :: "string list \<Rightarrow> lib_exc option"
  resolve :: "string \<Rightarrow> int \<Rightarrow> int \<Rightarrow> string \<Rightarrow> lib_exc option"
  perf_counter :: "real \<times> real"

subsection \<open>test_port_connectivity\<close>

text \<open>
  The result and the events in order. \<open>SockOpen\<close> is the socket created,
  \<open>SockClose\<close> the call of \<^verbatim>\<open>sock.close()\<close> returning.
\<close>

definition test_port_connectivity :: "env \<Rightarrow> string \<Rightarrow> int \<Rightarrow> int \<Rightarrow> bool \<times> event list" where
  "test_port_connectivity E ip port timeout =
     (case socket_new E of
        Some e \<Rightarrow> (False, [Print (txt_port_exception @ message e)])
      | None \<Rightarrow>
         (case settimeout E timeout of
            Some e \<Rightarrow> (False, [SockOpen, Print (txt_port_exception @ message e)])
          | None \<Rightarrow>
             (case connect_ex E ip port of
                Inl e \<Rightarrow> (False, [SockOpen, Print (txt_port_exception @ message e)])
              | Inr result \<Rightarrow>
                 (case sock_close E of
                    Some e \<Rightarrow> (False, [SockOpen, Print (txt_port_exception @ message e)])
                  | None \<Rightarrow> (result = 0, [SockOpen, SockClose])))))"

text \<open>Every socket opened in a trace has been closed.\<close>

definition sockets_released :: "event list \<Rightarrow> bool" where
  "sockets_released tr = (length (filter (\<lambda>ev. ev = SockOpen) tr) = length (filter (\<lambda>ev. ev = SockClose) tr))"

subsection \<open>test_dns_latency\<close>

text \<open>Lines 26 to 33: the host part and the port of the server given.\<close>

definition parse_server :: "env \<Rightarrow> string \<Rightarrow> exc + (string \<times> int)" where
  "parse_server E dns_server =
     (if CHR '':'' \<in> set dns_server then
        (case split_first (CHR '':'') dns_server of
           (server_part, port_part) \<Rightarrow>
             (case py_int (int_max_str_digits E) (int_non_ascii E) port_part of
                Inl e \<Rightarrow> Inl e
              | Inr port \<Rightarrow> Inr (server_part, port)))
      else Inr (dns_server, 53))"

text \<open>Lines 35 to 49: the address of the host part, in three tiers.\<close>

definition resolve_ip :: "env \<Rightarrow> string \<Rightarrow> int \<Rightarrow> (exc + string) \<times> event list" where
  "resolve_ip E server_part timeout =
     (case gethostbyname E server_part of
        Inr ip \<Rightarrow> (Inr ip, [])
      | Inl e \<Rightarrow>
         if is_gaierror e then
           (case new_Resolver E of
              Some e2 \<Rightarrow> (Inr server_part, [])
            | None \<Rightarrow>
               (case system_resolve E server_part timeout of
                  Inr ip \<Rightarrow> (Inr ip, [SysQuery server_part])
                | Inl e2 \<Rightarrow> (Inr server_part, [SysQuery server_part])))
         else (Inl (Library e), []))"

text \<open>Lines 71 to 85: the clauses of the diagnosis.\<close>

definition additional_info :: "int \<Rightarrow> bool \<Rightarrow> string \<Rightarrow> string list" where
  "additional_info port port_open error_msg =
     (let info1 = (if \<not> port_open then [txt_port_prefix @ str_int port @ txt_unreachable]
                   else [clause_port_open])
      in if contains ''timeout'' (lower error_msg) then info1 @ [hint_timeout]
         else if contains ''refused'' (lower error_msg) then info1 @ [hint_refused]
         else info1)"

text \<open>Line 87.\<close>

definition full_error :: "int \<Rightarrow> bool \<Rightarrow> lib_exc \<Rightarrow> string" where
  "full_error port port_open e =
     type_name e @ '': '' @ message e @ txt_cause @ join '', '' (additional_info port port_open (message e))"

text \<open>Line 53.\<close>

definition status_line :: "string \<Rightarrow> int \<Rightarrow> bool \<Rightarrow> string" where
  "status_line ip port port_open =
     txt_server_ip @ ip @ txt_port @ str_int port @ txt_port_state
       @ (if port_open then txt_open else txt_closed)"

text \<open>
  The whole function: what it returns or raises, and the events up to there. The
  parameter \<open>retries\<close> is the one of the source.
\<close>

definition test_dns_latency ::
  "env \<Rightarrow> string \<Rightarrow> string \<Rightarrow> int \<Rightarrow> int \<Rightarrow> (exc + bool \<times> pyval) \<times> event list" where
  "test_dns_latency E dns_server domain timeout retries =
     (case new_Resolver E of
        Some e \<Rightarrow> (Inl (Library e), [])
      | None \<Rightarrow>
         (case parse_server E dns_server of
            Inl e \<Rightarrow> (Inl e, [])
          | Inr (server_part, port) \<Rightarrow>
             (case resolve_ip E server_part timeout of
                (Inl e, tr1) \<Rightarrow> (Inl e, tr1)
              | (Inr ip, tr1) \<Rightarrow>
                 (case test_port_connectivity E ip port 2 of
                    (port_open, tr2) \<Rightarrow>
                      (let tr = tr1 @ tr2 @ [Print (status_line ip port port_open)] in
                       case set_nameservers E [ip] of
                         Some e \<Rightarrow> (Inl (Library e), tr)
                       | None \<Rightarrow>
                          (case resolve E ip port timeout domain of
                             None \<Rightarrow>
                               (case perf_counter E of
                                  (start_time, end_time) \<Rightarrow>
                                    (Inr (True, Float ((end_time - start_time) * 1000)),
                                     tr @ [Query ip port domain]))
                           | Some e \<Rightarrow>
                               (Inr (False, Str (full_error port port_open e)),
                                tr @ [Query ip port domain])))))))"

text \<open>
  The earlier script of the repository (\<^verbatim>\<open>dns delay testing.py\<close>) has the same
  \<open>main\<close> and a shorter \<open>test_dns_latency\<close>: no lookup of the host and no port
  check, the name servers are assigned before the port is parsed, and the result of
  a failed query is the message alone. Its lines 20 to 32 first:
\<close>

definition timed_query_old ::
  "env \<Rightarrow> string \<Rightarrow> int \<Rightarrow> string \<Rightarrow> int \<Rightarrow> (exc + bool \<times> pyval) \<times> event list" where
  "timed_query_old E ip port domain timeout =
     (case resolve E ip port timeout domain of
        None \<Rightarrow>
          (case perf_counter E of
             (start_time, end_time) \<Rightarrow>
               (Inr (True, Float ((end_time - start_time) * 1000)), [Query ip port domain]))
      | Some e \<Rightarrow> (Inr (False, Str (message e)), [Query ip port domain]))"

definition test_dns_latency_old ::
  "env \<Rightarrow> string \<Rightarrow> string \<Rightarrow> int \<Rightarrow> int \<Rightarrow> (exc + bool \<times> pyval) \<times> event list" where
  "test_dns_latency_old E dns_server domain timeout retries =
     (case new_Resolver E of
        Some e \<Rightarrow> (Inl (Library e), [])
      | None \<Rightarrow>
         if CHR '':'' \<in> set dns_server then
           (case split_first (CHR '':'') dns_server of
              (ip, port) \<Rightarrow>
                (case set_nameservers E [ip] of
                   Some e \<Rightarrow> (Inl (Library e), [])
                 | None \<Rightarrow>
                    (case py_int (int_max_str_digits E) (int_non_ascii E) port of
                       Inl e \<Rightarrow> (Inl e, [])
                     | Inr p \<Rightarrow> timed_query_old E ip p domain timeout)))
         else
           (case set_nameservers E [dns_server] of
              Some e \<Rightarrow> (Inl (Library e), [])
            | None \<Rightarrow> timed_query_old E dns_server 53 domain timeout))"

text \<open>The number of queries sent to the server under test.\<close>

definition query_count :: "event list \<Rightarrow> nat" where
  "query_count tr = length (filter (\<lambda>ev. case ev of Query ip port d \<Rightarrow> True | _ \<Rightarrow> False) tr)"

subsection \<open>main\<close>

text \<open>
  The arguments after parsing; \<open>arg_count\<close> and \<open>arg_timeout\<close> are any integers
  (\<^verbatim>\<open>type=int\<close>). The lines that \<open>main\<close> prints itself are not modelled.
  The two scripts have the same \<open>main\<close>, each calling the \<open>test_dns_latency\<close> of
  its own file: that function is the parameter \<open>probe\<close>, so \<open>main test_dns_latency\<close>
  is the \<open>main\<close> of \<^verbatim>\<open>dns-delay-testing.py\<close> and \<open>main test_dns_latency_old\<close>
  the one of the earlier script.
\<close>

type_synonym probe = "env \<Rightarrow> string \<Rightarrow> string \<Rightarrow> int \<Rightarrow> int \<Rightarrow> (exc + bool \<times> pyval) \<times> event list"

record args =
  arg_dns :: string
  arg_domain :: string
  arg_count :: int
  arg_timeout :: int

record loop_state =
  results :: "(bool \<times> pyval) list"
  success_count :: int
  latency_list :: "pyval list"
  trace :: "event list"

definition init_state :: loop_state where
  "init_state = \<lparr>results = [], success_count = 0, latency_list = [], trace = []\<rparr>"

text \<open>The body of the loop for the index \<open>i\<close>; the environment of attempt \<open>i\<close> is \<open>envs i\<close>.\<close>

definition loop_body ::
  "probe \<Rightarrow> (nat \<Rightarrow> env) \<Rightarrow> args \<Rightarrow> nat \<Rightarrow> loop_state \<Rightarrow> exc + loop_state" where
  "loop_body probe envs a i st =
     (case probe (envs i) (arg_dns a) (arg_domain a) (arg_timeout a) 1 of
        (Inl e, tr) \<Rightarrow> Inl e
      | (Inr (success, result), tr) \<Rightarrow>
          Inr \<lparr>results = results st @ [(success, result)],
               success_count = (if success then success_count st + 1 else success_count st),
               latency_list = (if success then latency_list st @ [result] else latency_list st),
               trace = trace st @ tr @ (if int i < arg_count a - 1 then [Sleep] else [])\<rparr>)"

fun run_attempts ::
  "probe \<Rightarrow> (nat \<Rightarrow> env) \<Rightarrow> args \<Rightarrow> nat list \<Rightarrow> loop_state \<Rightarrow> exc + loop_state" where
  "run_attempts probe envs a [] st = Inr st"
| "run_attempts probe envs a (i # is) st =
     (case loop_body probe envs a i st of
        Inl e \<Rightarrow> Inl e
      | Inr st' \<Rightarrow> run_attempts probe envs a is st')"

text \<open>
  The figures of the summary. The rate is the exact quotient; the rounding of the
  floating-point division and of the two-digit format is not modelled.
\<close>

record summary =
  total_count :: int
  succeeded :: int
  failed :: int
  success_rate :: real
  latencies :: "pyval list"

definition main :: "probe \<Rightarrow> (nat \<Rightarrow> env) \<Rightarrow> args \<Rightarrow> exc + summary" where
  "main probe envs a =
     (case run_attempts probe envs a [0 ..< nat (arg_count a)] init_state of
        Inl e \<Rightarrow> Inl e
      | Inr st \<Rightarrow>
          if arg_count a = 0 then Inl ZeroDivisionError
          else Inr \<lparr>total_count = arg_count a,
                    succeeded = success_count st,
                    failed = arg_count a - success_count st,
                    success_rate = real_of_int (success_count st) / real_of_int (arg_count a) * 100,
                    latencies = latency_list st\<rparr>)"

subsection \<open>Environments and arguments used as examples\<close>

text \<open>A server that answers: every call returns, the query takes 12 ms.\<close>

definition env_up :: env where
  "env_up =
     \<lparr>int_max_str_digits = 4300,
      int_non_ascii = (\<lambda>s. None),
      new_Resolver = None,
      gethostbyname = (\<lambda>host. Inr host),
      system_resolve = (\<lambda>host t. Inr host),
      socket_new = None,
      settimeout = (\<lambda>t. None),
      connect_ex = (\<lambda>ip port. Inr 0),
      sock_close = None,
      set_nameservers = (\<lambda>ns. None),
      resolve = (\<lambda>ip port t d. None),
      perf_counter = (1, 1 + 12 / 1000)\<rparr>"

definition no_such_host :: lib_exc where
  "no_such_host = LibExc True ''gaierror'' ''[Errno -2] Name or service not known''"

definition nxdomain :: lib_exc where
  "nxdomain = LibExc False ''NXDOMAIN'' ''The DNS query name does not exist''"

text \<open>
  A host name that nothing resolves: both lookups fail, and so does the connect of
  the port check and the query, which are given the name itself. The resolver
  library takes the name as a name server as it is.
\<close>

definition env_unresolvable :: env where
  "env_unresolvable =
     \<lparr>int_max_str_digits = 4300,
      int_non_ascii = (\<lambda>s. None),
      new_Resolver = None,
      gethostbyname = (\<lambda>host. Inl no_such_host),
      system_resolve = (\<lambda>host t. Inl nxdomain),
      socket_new = None,
      settimeout = (\<lambda>t. None),
      connect_ex = (\<lambda>ip port. Inl no_such_host),
      sock_close = None,
      set_nameservers = (\<lambda>ns. None),
      resolve = (\<lambda>ip port t d. Some no_such_host),
      perf_counter = (1, 2)\<rparr>"

definition args_zero :: args where
  "args_zero =
     \<lparr>arg_dns = ''8.8.8.8'', arg_domain = ''baidu.com'', arg_count = 0, arg_timeout = 5\<rparr>"

text \<open>A server that does not answer: the connect fails with an error code, the query times out.\<close>

definition lifetime_timeout :: lib_exc where
  "lifetime_timeout =
     LibExc False ''LifetimeTimeout'' ''The resolution lifetime expired after 5.1 seconds''"

definition env_silent :: env where
  "env_silent =
     \<lparr>int_max_str_digits = 4300,
      int_non_ascii = (\<lambda>s. None),
      new_Resolver = None,
      gethostbyname = (\<lambda>host. Inr host),
      system_resolve = (\<lambda>host t. Inr host),
      socket_new = None,
      settimeout = (\<lambda>t. None),
      connect_ex = (\<lambda>ip port. Inr 11),
      sock_close = None,
      set_nameservers = (\<lambda>ns. None),
      resolve = (\<lambda>ip port t d. Some lifetime_timeout),
      perf_counter = (1, 6)\<rparr>"

text \<open>
  A host name with an empty label: \<^verbatim>\<open>gethostbyname\<close> fails in the encoding of the
  name, with an exception that is not a \<^verbatim>\<open>gaierror\<close>.
\<close>

definition idna_error :: lib_exc where
  "idna_error = LibExc False ''UnicodeError'' ''label empty or too long''"

definition env_bad_label :: env where
  "env_bad_label =
     \<lparr>int_max_str_digits = 4300,
      int_non_ascii = (\<lambda>s. None),
      new_Resolver = None,
      gethostbyname = (\<lambda>host. Inl idna_error),
      system_resolve = (\<lambda>host t. Inl nxdomain),
      socket_new = None,
      settimeout = (\<lambda>t. None),
      connect_ex = (\<lambda>ip port. Inl no_such_host),
      sock_close = None,
      set_nameservers = (\<lambda>ns. None),
      resolve = (\<lambda>ip port t d. Some no_such_host),
      perf_counter = (1, 2)\<rparr>"

text \<open>A system without resolver configuration: \<^verbatim>\<open>Resolver()\<close> raises.\<close>

definition no_resolver_configuration :: lib_exc where
  "no_resolver_configuration =
     LibExc False ''NoResolverConfiguration'' ''Resolver configuration could not be read or specified no nameservers.''"

definition env_no_config :: env where
  "env_no_config =
     \<lparr>int_max_str_digits = 4300,
      int_non_ascii = (\<lambda>s. None),
      new_Resolver = Some no_resolver_configuration,
      gethostbyname = (\<lambda>host. Inr host),
      system_resolve = (\<lambda>host t. Inr host),
      socket_new = None,
      settimeout = (\<lambda>t. None),
      connect_ex = (\<lambda>ip port. Inr 0),
      sock_close = None,
      set_nameservers = (\<lambda>ns. None),
      resolve = (\<lambda>ip port t d. None),
      perf_counter = (1, 2)\<rparr>"

text \<open>
  The host name that nothing resolves, with a resolver library whose setter of
  \<^verbatim>\<open>nameservers\<close> takes addresses only and raises ValueError for the name, as
  the releases of dnspython that check the list do.
\<close>

definition not_an_address :: lib_exc where
  "not_an_address =
     LibExc False ''ValueError'' ''nameserver ns1.example.invalid is not an IP address or valid https URL''"

definition env_strict :: env where
  "env_strict =
     \<lparr>int_max_str_digits = 4300,
      int_non_ascii = (\<lambda>s. None),
      new_Resolver = None,
      gethostbyname = (\<lambda>host. Inl no_such_host),
      system_resolve = (\<lambda>host t. Inl nxdomain),
      socket_new = None,
      settimeout = (\<lambda>t. None),
      connect_ex = (\<lambda>ip port. Inl no_such_host),
      sock_close = None,
      set_nameservers =
        (\<lambda>ns. if ns = [''ns1.example.invalid''] then Some not_an_address else None),
      resolve = (\<lambda>ip port t d. Some no_such_host),
      perf_counter = (1, 2)\<rparr>"

definition args_bad_port :: args where
  "args_bad_port =
     \<lparr>arg_dns = ''8.8.8.8:abc'', arg_domain = ''baidu.com'', arg_count = 5, arg_timeout = 5\<rparr>"

definition args_two :: args where
  "args_two =
     \<lparr>arg_dns = ''8.8.8.8'', arg_domain = ''baidu.com'', arg_count = 2, arg_timeout = 5\<rparr>"


text \<open>
  A resolver library that checks the name servers assigned: it takes the address
  8.8.8.8 and raises ValueError for any other text.
\<close>

definition env_validating :: env where
  "env_validating =
     \<lparr>int_max_str_digits = 4300,
      int_non_ascii = (\<lambda>s. None),
      new_Resolver = None,
      gethostbyname = (\<lambda>host. Inr host),
      system_resolve = (\<lambda>host t. Inr host),
      socket_new = None,
      settimeout = (\<lambda>t. None),
      connect_ex = (\<lambda>ip port. Inr 0),
      sock_close = None,
      set_nameservers = (\<lambda>ns. if ns = [''8.8.8.8''] then None else Some not_an_address),
      resolve = (\<lambda>ip port t d. None),
      perf_counter = (1, 1 + 12 / 1000)\<rparr>"

text \<open>
  The environment raises nothing but what the code has a handler for: the resolver
  object is made, the lookup of the host fails with a \<^verbatim>\<open>gaierror\<close> if it fails,
  and the resolver takes as its name server the address that the lookups give.
\<close>

definition handled_env :: "env \<Rightarrow> string \<Rightarrow> int \<Rightarrow> bool" where
  "handled_env E host t =
     (new_Resolver E = None \<and>
      (\<forall>e. gethostbyname E host = Inl e \<longrightarrow> is_gaierror e) \<and>
      (\<forall>ip. fst (resolve_ip E host t) = Inr ip \<longrightarrow> set_nameservers E [ip] = None))"


section \<open>Properties\<close>

subsection \<open>Strings and integers\<close>

lemma split_first_app: "sep \<notin> set h \<Longrightarrow> split_first sep (h @ sep # r) = (h, r)"
  unfolding split_first_def
  by (induction h) auto

lemma digit_val_digit_char: "d < 10 \<Longrightarrow> digit_val (digit_char d) = Some d"
proof -
  assume "d < 10"
  then have "d \<in> {0, 1, 2, 3, 4, 5, 6, 7, 8, 9}" by auto
  then show ?thesis
    by (auto simp: digit_val_def digit_char_def)
qed

lemma digit_not_special:
  "digit_val c = Some v \<Longrightarrow> c \<noteq> CHR ''_'' \<and> c \<noteq> CHR ''-'' \<and> c \<noteq> CHR ''+'' \<and> \<not> is_space c"
  by (auto simp: digit_val_def is_space_def split: if_splits)

lemma digits_value_snoc:
  "\<forall>c\<in>set xs. digit_val c \<noteq> None \<Longrightarrow> digit_val c' = Some v \<Longrightarrow>
     digits_value acc (xs @ [c']) = map_option (\<lambda>n. n * 10 + v) (digits_value acc xs)"
proof (induction acc xs rule: digits_value.induct)
  case (1 acc)
  then show ?case by simp
next
  case (2 acc c)
  then obtain v0 where v0: "digit_val c = Some v0" by auto
  with digit_not_special [OF v0] 2 show ?case by simp
next
  case (3 acc c d ds)
  then obtain v0 where v0: "digit_val c = Some v0" by auto
  with digit_not_special [OF v0] 3 show ?case by simp
qed

lemma parse_digits_snoc:
  assumes "xs \<noteq> []" and "\<forall>c\<in>set xs. digit_val c \<noteq> None" and "digit_val c' = Some v"
  shows "parse_digits (xs @ [c']) = map_option (\<lambda>n. n * 10 + v) (parse_digits xs)"
proof -
  from assms(1) obtain x xs' where xs: "xs = x # xs'" by (cases xs) auto
  with assms(2) obtain v0 where v0: "digit_val x = Some v0" by auto
  from assms(2) xs have "\<forall>c\<in>set xs'. digit_val c \<noteq> None" by simp
  from digits_value_snoc [OF this assms(3)] xs v0 show ?thesis
    by (simp add: parse_digits_def)
qed

lemma str_nat_nonempty: "str_nat n \<noteq> []"
  by (induction n rule: str_nat.induct) (subst str_nat.simps, simp)

lemma str_nat_digits: "\<forall>c\<in>set (str_nat n). digit_val c \<noteq> None"
proof (induction n rule: str_nat.induct)
  case (1 n)
  show ?case
  proof (cases "n < 10")
    case True
    then show ?thesis
      by (subst str_nat.simps) (simp add: digit_val_digit_char)
  next
    case False
    with 1 have "\<forall>c\<in>set (str_nat (n div 10)). digit_val c \<noteq> None" by simp
    with False show ?thesis
      by (subst str_nat.simps) (simp add: digit_val_digit_char)
  qed
qed

text \<open>Reading back what \<open>str_nat\<close> writes.\<close>

lemma parse_digits_str_nat: "parse_digits (str_nat n) = Some n"
proof (induction n rule: str_nat.induct)
  case (1 n)
  show ?case
  proof (cases "n < 10")
    case True
    then show ?thesis
      by (subst str_nat.simps) (simp add: parse_digits_def digit_val_digit_char)
  next
    case False
    with 1 have ih: "parse_digits (str_nat (n div 10)) = Some (n div 10)" by simp
    have d: "digit_val (digit_char (n mod 10)) = Some (n mod 10)"
      by (simp add: digit_val_digit_char)
    from False have "str_nat n = str_nat (n div 10) @ [digit_char (n mod 10)]"
      by (subst str_nat.simps) simp
    then show ?thesis
      using parse_digits_snoc [OF str_nat_nonempty str_nat_digits d, of "n div 10"] ih
      by simp
  qed
qed

lemma strip_no_space: "\<forall>c\<in>set s. \<not> is_space c \<Longrightarrow> strip s = s"
proof -
  assume a: "\<forall>c\<in>set s. \<not> is_space c"
  have "s = [] \<or> \<not> is_space (hd s)"
    using a by (cases s) auto
  then have 1: "dropWhile is_space s = s"
    by (simp only: dropWhile_eq_self_iff)
  have "rev s = [] \<or> \<not> is_space (hd (rev s))"
    using a by (cases s rule: rev_cases) auto
  then have 2: "dropWhile is_space (rev s) = rev s"
    by (simp only: dropWhile_eq_self_iff)
  show ?thesis by (simp add: strip_def 1 2)
qed

lemma str_nat_no_space: "\<forall>c\<in>set (str_nat n). \<not> is_space c"
  using str_nat_digits [of n] digit_not_special by blast

lemma str_nat_ascii: "is_ascii (str_nat n)"
proof -
  have "\<not> digit7 c" if "digit_val c \<noteq> None" for c
    using that by (auto simp: digit_val_def split: if_splits)
  with str_nat_digits [of n] show ?thesis
    by (auto simp: is_ascii_def list_all_iff)
qed

lemma str_int_ascii: "is_ascii (str_int n)"
  using str_nat_ascii by (simp add: str_int_def is_ascii_def)

text \<open>
  \<open>py_int\<close> reads back what \<open>str_int\<close> writes, unless the digits are over the
  limit.
\<close>

lemma py_int_str_int:
  assumes "\<not> over_digit_limit m (str_nat (nat \<bar>n\<bar>))"
  shows "py_int m f (str_int n) = Inr n"
proof (cases "n < 0")
  case True
  then have abs: "nat \<bar>n\<bar> = nat (- n)" by simp
  have sp: "strip (CHR ''-'' # str_nat (nat (- n))) = CHR ''-'' # str_nat (nat (- n))"
    using str_nat_no_space [of "nat (- n)"]
    by (intro strip_no_space) (simp add: is_space_def)
  have asc: "is_ascii (CHR ''-'' # str_nat (nat (- n)))"
    using str_int_ascii [of n] True by (simp add: str_int_def)
  from True assms show ?thesis
    by (simp add: py_int_def str_int_def sp asc abs parse_digits_str_nat)
next
  case False
  then have abs: "nat \<bar>n\<bar> = nat n" by simp
  obtain c cs where s: "str_nat (nat n) = c # cs"
    using str_nat_nonempty [of "nat n"] by (cases "str_nat (nat n)") auto
  with str_nat_digits [of "nat n"] obtain v where "digit_val c = Some v" by auto
  from digit_not_special [OF this] have c: "c \<noteq> CHR ''-''" "c \<noteq> CHR ''+''" by simp_all
  have "strip (str_nat (nat n)) = str_nat (nat n)"
    using str_nat_no_space by (rule strip_no_space)
  with s have sp: "strip (c # cs) = c # cs" by simp
  have asc: "is_ascii (c # cs)"
    using str_nat_ascii [of "nat n"] s by simp
  have lim: "\<not> over_digit_limit m (c # cs)"
    using assms abs s by simp
  have "parse_digits (c # cs) = Some (nat n)"
    using parse_digits_str_nat [of "nat n"] s by simp
  with False c s show ?thesis
    by (simp add: py_int_def str_int_def sp asc lim)
qed

text \<open>A number below \<open>10 ^ k\<close> has at most \<open>k\<close> digits; so the limit never applies below \<open>10 ^ 640\<close>.\<close>

lemma length_str_nat: "0 < k \<Longrightarrow> n < 10 ^ k \<Longrightarrow> length (str_nat n) \<le> k"
proof (induction n arbitrary: k rule: str_nat.induct)
  case (1 n)
  show ?case
  proof (cases "n < 10")
    case True
    with 1 show ?thesis by (subst str_nat.simps) simp
  next
    case False
    with "1.prems" obtain j where k: "k = Suc j" and j: "0 < j"
      by (cases k; cases "k - 1") auto
    from "1.prems" k have "n div 10 < 10 ^ j"
      by (simp add: less_mult_imp_div_less mult.commute)
    with 1 False j have "length (str_nat (n div 10)) \<le> j" by simp
    with False k show ?thesis by (subst str_nat.simps) simp
  qed
qed

lemma digit_count_str_nat: "digit_count (str_nat n) = length (str_nat n)"
proof -
  have "c \<noteq> CHR ''_''" if "c \<in> set (str_nat n)" for c
    using that str_nat_digits [of n] digit_not_special by blast
  then show ?thesis by (simp add: digit_count_def)
qed

lemma small_not_over_limit:
  assumes "n < 10 ^ 640"
  shows "\<not> over_digit_limit m (str_nat n)"
proof -
  have "length (str_nat n) \<le> 640"
    using _ assms by (rule length_str_nat) simp
  then show ?thesis
    by (simp only: over_digit_limit_def digit_count_str_nat) simp
qed

lemma small_abs:
  assumes "\<bar>n::int\<bar> < 100000"
  shows "\<bar>n\<bar> < 10 ^ 640"
proof -
  have 1: "(10::int) ^ 5 \<le> 10 ^ 640" by (rule power_increasing) simp_all
  from assms have 2: "\<bar>n\<bar> < 10 ^ 5" by simp
  from 2 1 show ?thesis by (rule less_le_trans)
qed

lemma nat_abs_small: "\<bar>n::int\<bar> < 10 ^ 640 \<Longrightarrow> nat \<bar>n\<bar> < 10 ^ 640"
  by (simp only: nat_less_iff [OF abs_ge_zero] of_nat_power of_nat_numeral)

text \<open>Digits over the limit are refused: with the limit 4300, a port of more digits.\<close>

lemma py_int_over_limit:
  assumes "\<forall>c\<in>set ds. digit_val c \<noteq> None" and "over_digit_limit m ds"
  shows "py_int m f ds = Inl (ValueError ds)"
proof -
  have d: "\<not> digit7 c \<and> \<not> is_space c \<and> c \<noteq> CHR ''-'' \<and> c \<noteq> CHR ''+''"
    if "c \<in> set ds" for c
  proof -
    from that assms(1) obtain v where v: "digit_val c = Some v" by auto
    then have "\<not> digit7 c"
      by (auto simp: digit_val_def split: if_splits)
    with digit_not_special [OF v] show ?thesis by simp
  qed
  have sp: "strip ds = ds"
    using d by (intro strip_no_space) blast
  have asc: "is_ascii ds"
    using d by (simp add: is_ascii_def list_all_iff)
  have body: "(case ds of [] \<Rightarrow> ds | c # cs \<Rightarrow> if c = CHR ''-'' \<or> c = CHR ''+'' then cs else ds) = ds"
  proof (cases ds)
    case Nil
    then show ?thesis by simp
  next
    case (Cons c cs)
    with d [of c] show ?thesis by simp
  qed
  show ?thesis
    unfolding py_int_def Let_def sp body
    using asc assms(2) by (simp split: option.splits)
qed

lemma parse_server_over_limit:
  assumes "4300 < n"
  shows "parse_server env_up (''8.8.8.8:'' @ replicate n (CHR ''1''))
     = Inl (ValueError (replicate n (CHR ''1'')))"
proof -
  have "over_digit_limit 4300 (replicate n (CHR ''1''))"
    using assms by (simp add: over_digit_limit_def digit_count_def)
  then have "py_int 4300 (\<lambda>s. None) (replicate n (CHR ''1''))
      = Inl (ValueError (replicate n (CHR ''1'')))"
    by (intro py_int_over_limit) (simp_all add: digit_val_def)
  then show ?thesis
    by (simp add: parse_server_def split_first_def env_up_def)
qed

lemma py_int_5353: "py_int m f ''5353'' = Inr 5353"
  by (simp add: py_int_def is_ascii_def strip_def is_space_def parse_digits_def digit_val_def
      over_digit_limit_def digit_count_def)

lemma py_int_abc: "py_int m f ''abc'' = Inl (ValueError ''abc'')"
  by (simp add: py_int_def is_ascii_def strip_def is_space_def parse_digits_def digit_val_def)

lemma parse_bad_port: "parse_server E ''8.8.8.8:abc'' = Inl (ValueError ''abc'')"
  by (simp add: parse_server_def split_first_def py_int_abc)

subsection \<open>The server given\<close>

text \<open>
  C5: the port is 53 when the server given has no colon (and the host part is the
  whole text); otherwise it is what \<^verbatim>\<open>int\<close> makes of the text after the first colon
  (the host part is the text before it), and the ValueError of \<^verbatim>\<open>int\<close> when that
  text is no integer.
\<close>

theorem parse_server_port:
  "(CHR '':'' \<notin> set spec \<longrightarrow> parse_server E spec = Inr (spec, 53)) \<and>
   (CHR '':'' \<notin> set h \<longrightarrow>
      parse_server E (h @ CHR '':'' # r) =
        (case py_int (int_max_str_digits E) (int_non_ascii E) r of
           Inl e \<Rightarrow> Inl e
         | Inr p \<Rightarrow> Inr (h, p)))"
  by (simp add: parse_server_def split_first_app)

theorem parse_server_port_witness:
  "CHR '':'' \<notin> set ''8.8.8.8'' \<and> parse_server env_up ''8.8.8.8'' = Inr (''8.8.8.8'', 53) \<and>
   CHR '':'' \<notin> set ''203.0.113.5'' \<and>
   parse_server env_up ''203.0.113.5:5353'' = Inr (''203.0.113.5'', 5353) \<and>
   parse_server env_up (''10.0.0.1:'' @ [CHR 0x1F, CHR ''5'', CHR ''3''])
     = Inl (ValueError [CHR 0x1F, CHR ''5'', CHR ''3''])"
  using parse_server_port [of "''8.8.8.8''" env_up "''203.0.113.5''" "''5353''"]
    parse_server_port [of "''8.8.8.8''" env_up "''10.0.0.1''" "[CHR 0x1F, CHR ''5'', CHR ''3'']"]
  by (simp add: py_int_5353)
     (simp add: py_int_def is_ascii_def strip_def is_space_def parse_digits_def digit_val_def)

text \<open>
  C9, as the claim states it, fails: the port of \<^verbatim>\<open>8.8.8.8:70000\<close> is 70000.
\<close>

theorem port_out_of_range_counterexample:
  "parse_server env_up ''8.8.8.8:70000'' = Inr (''8.8.8.8'', 70000) \<and>
   \<not> (1 \<le> (70000::int) \<and> (70000::int) \<le> 65535)"
  by (simp add: parse_server_def split_first_def py_int_def is_ascii_def strip_def is_space_def
      parse_digits_def digit_val_def over_digit_limit_def digit_count_def)

text \<open>
  C9, amended: the port written is taken as it is, with no check of its range. The
  default 53 lies within 1 to 65535. An integer \<open>n\<close>, written in decimal after the
  colon, is the port that results whenever \<^verbatim>\<open>int\<close> takes its digits, that is, when
  they are not over the limit of the interpreter on the digits of a literal; below
  \<open>10 ^ 640\<close> in absolute value that limit never applies, so every such integer,
  in the range of ports or out of it, is the port that results.
\<close>

theorem parse_server_port_unchecked:
  "(CHR '':'' \<notin> set spec \<longrightarrow>
      parse_server E spec = Inr (spec, 53) \<and> (1::int) \<le> 53 \<and> (53::int) \<le> 65535) \<and>
   (CHR '':'' \<notin> set h \<and>
    \<not> over_digit_limit (int_max_str_digits E) (str_nat (nat \<bar>n\<bar>)) \<longrightarrow>
      parse_server E (h @ '':'' @ str_int n) = Inr (h, n)) \<and>
   (CHR '':'' \<notin> set h \<and> \<bar>n\<bar> < 10 ^ 640 \<longrightarrow>
      parse_server E (h @ '':'' @ str_int n) = Inr (h, n))"
proof -
  have 1: "CHR '':'' \<notin> set spec \<longrightarrow>
      parse_server E spec = Inr (spec, 53) \<and> (1::int) \<le> 53 \<and> (53::int) \<le> 65535"
    by (simp add: parse_server_def)
  have 2: "CHR '':'' \<notin> set h \<and>
    \<not> over_digit_limit (int_max_str_digits E) (str_nat (nat \<bar>n\<bar>)) \<longrightarrow>
      parse_server E (h @ '':'' @ str_int n) = Inr (h, n)"
    by (simp add: parse_server_def split_first_app py_int_str_int)
  have 3: "CHR '':'' \<notin> set h \<and> \<bar>n\<bar> < 10 ^ 640 \<longrightarrow>
      parse_server E (h @ '':'' @ str_int n) = Inr (h, n)"
  proof
    assume h: "CHR '':'' \<notin> set h \<and> \<bar>n\<bar> < 10 ^ 640"
    then have "nat \<bar>n\<bar> < 10 ^ 640"
      by (intro nat_abs_small) (rule conjunct2)
    then have "\<not> over_digit_limit (int_max_str_digits E) (str_nat (nat \<bar>n\<bar>))"
      by (rule small_not_over_limit)
    with 2 h show "parse_server E (h @ '':'' @ str_int n) = Inr (h, n)" by blast
  qed
  from 1 2 3 show ?thesis by (intro conjI)
qed

theorem parse_server_port_unchecked_witness:
  "CHR '':'' \<notin> set ''10.0.0.1'' \<and>
   parse_server env_up ''10.0.0.1'' = Inr (''10.0.0.1'', 53) \<and>
   \<bar>0::int\<bar> < 10 ^ 640 \<and>
   parse_server env_up (''10.0.0.1'' @ '':'' @ str_int 0) = Inr (''10.0.0.1'', 0) \<and>
   \<bar>- 7::int\<bar> < 10 ^ 640 \<and>
   parse_server env_up (''10.0.0.1'' @ '':'' @ str_int (- 7)) = Inr (''10.0.0.1'', - 7) \<and>
   \<not> over_digit_limit (int_max_str_digits env_up) (str_nat (nat \<bar>70000\<bar>)) \<and>
   parse_server env_up (''10.0.0.1'' @ '':'' @ str_int 70000) = Inr (''10.0.0.1'', 70000)"
proof -
  have c: "CHR '':'' \<notin> set ''10.0.0.1''" by simp
  have a: "\<bar>0::int\<bar> < 10 ^ 640" "\<bar>- 7::int\<bar> < 10 ^ 640"
    by (rule small_abs, simp)+
  have "\<bar>70000::int\<bar> < 10 ^ 640" by (rule small_abs) simp
  then have "nat \<bar>70000\<bar> < 10 ^ 640" by (rule nat_abs_small)
  then have l: "\<not> over_digit_limit (int_max_str_digits env_up) (str_nat (nat \<bar>70000\<bar>))"
    by (rule small_not_over_limit)
  note t0 = parse_server_port_unchecked [where spec = "''10.0.0.1''" and E = env_up
      and h = "''10.0.0.1''" and n = 0]
  note t7 = parse_server_port_unchecked [where spec = "''10.0.0.1''" and E = env_up
      and h = "''10.0.0.1''" and n = "- 7"]
  note t70000 = parse_server_port_unchecked [where spec = "''10.0.0.1''" and E = env_up
      and h = "''10.0.0.1''" and n = 70000]
  from t0 c have 1: "parse_server env_up ''10.0.0.1'' = Inr (''10.0.0.1'', 53)" by blast
  from t0 c a have 2: "parse_server env_up (''10.0.0.1'' @ '':'' @ str_int 0)
      = Inr (''10.0.0.1'', 0)" by blast
  from t7 c a have 3: "parse_server env_up (''10.0.0.1'' @ '':'' @ str_int (- 7))
      = Inr (''10.0.0.1'', - 7)" by blast
  from t70000 c l have 4: "parse_server env_up (''10.0.0.1'' @ '':'' @ str_int 70000)
      = Inr (''10.0.0.1'', 70000)" by blast
  from c 1 a(1) 2 a(2) 3 l 4 show ?thesis by (intro conjI)
qed

subsection \<open>The port check\<close>

text \<open>
  C7: the port check returns True exactly when the socket is made, the timeout is set,
  \<^verbatim>\<open>connect_ex\<close> returns 0 and the close returns; every other course, an error code
  or an exception of any of the four calls, gives False. The function raises nothing
  (its result is a pair, not a sum), and the text of an exception, which is printed,
  has no part in the result.
\<close>

theorem port_check_true_iff:
  "fst (test_port_connectivity E ip port t) =
     (socket_new E = None \<and> settimeout E t = None \<and> connect_ex E ip port = Inr 0 \<and>
      sock_close E = None)"
  by (auto simp: test_port_connectivity_def split: option.splits sum.splits)

theorem port_check_true_iff_witness:
  "fst (test_port_connectivity env_up ''8.8.8.8'' 53 2) \<and>
   \<not> fst (test_port_connectivity env_silent ''10.0.0.1'' 53 2) \<and>
   \<not> fst (test_port_connectivity env_unresolvable ''ns1.example.invalid'' 53 2)"
  using port_check_true_iff [of env_up "''8.8.8.8''" 53 2]
    port_check_true_iff [of env_silent "''10.0.0.1''" 53 2]
    port_check_true_iff [of env_unresolvable "''ns1.example.invalid''" 53 2]
  by (simp add: env_up_def env_silent_def env_unresolvable_def)

text \<open>
  The socket is closed when no call after its creation raises, and only then.
\<close>

lemma port_check_released_iff:
  "sockets_released (snd (test_port_connectivity E ip port t)) =
     (socket_new E \<noteq> None \<or>
      (settimeout E t = None \<and> (\<exists>r. connect_ex E ip port = Inr r) \<and> sock_close E = None))"
  by (auto simp: test_port_connectivity_def sockets_released_def split: option.splits sum.splits)

text \<open>
  C2 does not hold of the code: \<^verbatim>\<open>sock.close()\<close> stands on the straight path only.
  When \<^verbatim>\<open>connect_ex\<close> raises (here for a host name that does not resolve) the
  handler prints and returns False, and the socket that was made is not closed.
\<close>

theorem port_check_leaks_socket:
  "test_port_connectivity env_unresolvable ''ns1.example.invalid'' 53 2 =
     (False, [SockOpen, Print (txt_port_exception @ ''[Errno -2] Name or service not known'')]) \<and>
   \<not> sockets_released (snd (test_port_connectivity env_unresolvable ''ns1.example.invalid'' 53 2))"
  by (simp add: test_port_connectivity_def env_unresolvable_def no_such_host_def
      sockets_released_def)

subsection \<open>The diagnosis of a failed query\<close>










subsection \<open>One attempt\<close>

text \<open>The six ways through \<open>test_dns_latency\<close>.\<close>

lemma test_dns_latency_cases:
  obtains
    (ctor) e where "new_Resolver E = Some e"
      and "test_dns_latency E spec d t r = (Inl (Library e), [])"
  | (parse) e where "new_Resolver E = None" and "parse_server E spec = Inl e"
      and "test_dns_latency E spec d t r = (Inl e, [])"
  | (lookup) host port e tr1 where "new_Resolver E = None"
      and "parse_server E spec = Inr (host, port)" and "resolve_ip E host t = (Inl e, tr1)"
      and "test_dns_latency E spec d t r = (Inl e, tr1)"
  | (setter) host port ip tr1 port_open tr2 e where "new_Resolver E = None"
      and "parse_server E spec = Inr (host, port)" and "resolve_ip E host t = (Inr ip, tr1)"
      and "test_port_connectivity E ip port 2 = (port_open, tr2)"
      and "set_nameservers E [ip] = Some e"
      and "test_dns_latency E spec d t r =
             (Inl (Library e), tr1 @ tr2 @ [Print (status_line ip port port_open)])"
  | (answered) host port ip tr1 port_open tr2 where "new_Resolver E = None"
      and "parse_server E spec = Inr (host, port)" and "resolve_ip E host t = (Inr ip, tr1)"
      and "test_port_connectivity E ip port 2 = (port_open, tr2)"
      and "set_nameservers E [ip] = None" and "resolve E ip port t d = None"
      and "test_dns_latency E spec d t r =
             (Inr (True, Float ((snd (perf_counter E) - fst (perf_counter E)) * 1000)),
              tr1 @ tr2 @ [Print (status_line ip port port_open), Query ip port d])"
  | (failed) host port ip tr1 port_open tr2 e where "new_Resolver E = None"
      and "parse_server E spec = Inr (host, port)" and "resolve_ip E host t = (Inr ip, tr1)"
      and "test_port_connectivity E ip port 2 = (port_open, tr2)"
      and "set_nameservers E [ip] = None" and "resolve E ip port t d = Some e"
      and "test_dns_latency E spec d t r =
             (Inr (False, Str (full_error port port_open e)),
              tr1 @ tr2 @ [Print (status_line ip port port_open), Query ip port d])"
proof (cases "new_Resolver E")
  case (Some e)
  then show ?thesis using ctor by (simp add: test_dns_latency_def)
next
  case None
  note n = None
  show ?thesis
  proof (cases "parse_server E spec")
    case (Inl e)
    with n show ?thesis using parse by (simp add: test_dns_latency_def)
  next
    case (Inr hp)
    obtain host port where hp: "hp = (host, port)" by (cases hp)
    obtain res tr1 where ri: "resolve_ip E host t = (res, tr1)" by (cases "resolve_ip E host t")
    show ?thesis
    proof (cases res)
      case (Inl e)
      with n Inr hp ri show ?thesis using lookup by (simp add: test_dns_latency_def)
    next
      case ip: (Inr ip)
      obtain port_open tr2 where pc: "test_port_connectivity E ip port 2 = (port_open, tr2)"
        by (cases "test_port_connectivity E ip port 2")
      show ?thesis
      proof (cases "set_nameservers E [ip]")
        case (Some e)
        with n Inr hp ri ip pc show ?thesis using setter [of host port ip tr1 port_open tr2 e]
          by (simp add: test_dns_latency_def)
      next
        case sn: None
        show ?thesis
        proof (cases "resolve E ip port t d")
          case None
          with n Inr hp ri ip pc sn show ?thesis using answered [of host port ip tr1 port_open tr2]
            by (simp add: test_dns_latency_def split: prod.splits)
        next
          case (Some e)
          with n Inr hp ri ip pc sn show ?thesis using failed [of host port ip tr1 port_open tr2 e]
            by (simp add: test_dns_latency_def)
        qed
      qed
    qed
  qed
qed

lemma port_check_no_query: "query_count (snd (test_port_connectivity E ip port t)) = 0"
  by (simp add: test_port_connectivity_def query_count_def split: option.splits sum.splits)

lemma resolve_ip_no_query: "query_count (snd (resolve_ip E host t)) = 0"
  by (simp add: resolve_ip_def query_count_def split: option.splits sum.splits)

lemma query_count_append: "query_count (xs @ ys) = query_count xs + query_count ys"
  by (simp add: query_count_def)

text \<open>A call that returns has sent one query, a call that raises none.\<close>

lemma test_dns_latency_query_count:
  "query_count (snd (test_dns_latency E spec d t r)) =
     (case fst (test_dns_latency E spec d t r) of Inl e \<Rightarrow> 0 | Inr out \<Rightarrow> 1)"
proof (cases E spec d t r rule: test_dns_latency_cases)
  case (lookup host port e tr1)
  then show ?thesis using resolve_ip_no_query [of E host t] by simp
next
  case (setter host port ip tr1 port_open tr2 e)
  then show ?thesis
    using resolve_ip_no_query [of E host t] port_check_no_query [of E ip port 2]
    by (simp add: query_count_append) (simp add: query_count_def)
next
  case (answered host port ip tr1 port_open tr2)
  then show ?thesis
    using resolve_ip_no_query [of E host t] port_check_no_query [of E ip port 2]
    by (simp add: query_count_append) (simp add: query_count_def)
next
  case (failed host port ip tr1 port_open tr2 e)
  then show ?thesis
    using resolve_ip_no_query [of E host t] port_check_no_query [of E ip port 2]
    by (simp add: query_count_append) (simp add: query_count_def)
qed (simp_all add: query_count_def)

lemma test_dns_latency_old_query_count:
  "query_count (snd (test_dns_latency_old E spec d t r)) =
     (case fst (test_dns_latency_old E spec d t r) of Inl e \<Rightarrow> 0 | Inr out \<Rightarrow> 1)"
  by (simp add: test_dns_latency_old_def timed_query_old_def query_count_def
      split: option.splits sum.splits prod.splits)

text \<open>
  C8, as the claim states it, fails in its second half: a call that raises before the
  query sends none, whatever \<open>retries\<close> is.
\<close>

theorem no_query_counterexample:
  "test_dns_latency env_up ''8.8.8.8:abc'' ''baidu.com'' 5 3 = (Inl (ValueError ''abc''), []) \<and>
   query_count (snd (test_dns_latency env_up ''8.8.8.8:abc'' ''baidu.com'' 5 3)) \<noteq> 1 \<and>
   test_dns_latency_old env_up ''8.8.8.8:abc'' ''baidu.com'' 5 3 = (Inl (ValueError ''abc''), [])"
  by (simp add: test_dns_latency_def test_dns_latency_old_def env_up_def parse_bad_port
      split_first_def py_int_abc query_count_def)

text \<open>
  C8, amended: \<open>retries\<close> is not used, in either script. Two calls that differ in
  it only have the same result and the same events; and a call sends exactly one
  query to the server under test when it returns a result, none when it raises.
\<close>

theorem retries_ignored:
  "test_dns_latency E spec d t r1 = test_dns_latency E spec d t r2 \<and>
   query_count (snd (test_dns_latency E spec d t r1)) =
     (case fst (test_dns_latency E spec d t r1) of Inl e \<Rightarrow> 0 | Inr out \<Rightarrow> 1) \<and>
   test_dns_latency_old E spec d t r1 = test_dns_latency_old E spec d t r2 \<and>
   query_count (snd (test_dns_latency_old E spec d t r1)) =
     (case fst (test_dns_latency_old E spec d t r1) of Inl e \<Rightarrow> 0 | Inr out \<Rightarrow> 1)"
proof -
  have 1: "test_dns_latency E spec d t r1 = test_dns_latency E spec d t r2"
    by (simp add: test_dns_latency_def)
  have 2: "test_dns_latency_old E spec d t r1 = test_dns_latency_old E spec d t r2"
    by (simp add: test_dns_latency_old_def)
  from 1 test_dns_latency_query_count [of E spec d t r1]
    2 test_dns_latency_old_query_count [of E spec d t r1]
  show ?thesis by (intro conjI)
qed

theorem retries_ignored_witness:
  "test_dns_latency env_up ''8.8.8.8'' ''baidu.com'' 5 1 =
     test_dns_latency env_up ''8.8.8.8'' ''baidu.com'' 5 7 \<and>
   fst (test_dns_latency env_up ''8.8.8.8'' ''baidu.com'' 5 1) = Inr (True, Float 12) \<and>
   query_count (snd (test_dns_latency env_up ''8.8.8.8'' ''baidu.com'' 5 1)) = 1"
proof -
  note th = retries_ignored [of env_up "''8.8.8.8''" "''baidu.com''" 5 1 7]
  have v: "fst (test_dns_latency env_up ''8.8.8.8'' ''baidu.com'' 5 1) = Inr (True, Float 12)"
    by (simp add: test_dns_latency_def env_up_def parse_server_def resolve_ip_def
        test_port_connectivity_def)
  have q: "query_count (snd (test_dns_latency env_up ''8.8.8.8'' ''baidu.com'' 5 1)) = 1"
    by (simp only: conjunct1 [OF conjunct2 [OF th]] v sum.case)
  from conjunct1 [OF th] v q show ?thesis
    by (intro conjI)
qed

text \<open>Only a failure of the first lookup that is no \<^verbatim>\<open>gaierror\<close> leaves \<open>resolve_ip\<close>.\<close>

lemma resolve_ip_Inl:
  "resolve_ip E host t = (Inl e, tr) \<Longrightarrow>
     \<exists>le. gethostbyname E host = Inl le \<and> \<not> is_gaierror le \<and> e = Library le"
  by (auto simp: resolve_ip_def split: sum.splits option.splits if_splits)

text \<open>In an environment that raises nothing unhandled, an attempt with a port that parses returns.\<close>

lemma test_dns_latency_returns:
  assumes "handled_env E host t" and "parse_server E spec = Inr (host, port)"
  shows "\<exists>out. fst (test_dns_latency E spec d t r) = Inr out"
proof (cases E spec d t r rule: test_dns_latency_cases)
  case (ctor e)
  with assms show ?thesis by (simp add: handled_env_def)
next
  case (parse e)
  with assms show ?thesis by simp
next
  case (lookup host' port' e tr1)
  with assms have "resolve_ip E host t = (Inl e, tr1)" by simp
  from resolve_ip_Inl [OF this] assms(1) show ?thesis by (auto simp: handled_env_def)
next
  case (setter host' port' ip tr1 port_open tr2 e)
  with assms show ?thesis by (simp add: handled_env_def)
next
  case (answered host' port' ip tr1 port_open tr2)
  then show ?thesis by auto
next
  case (failed host' port' ip tr1 port_open tr2 e)
  then show ?thesis by auto
qed

lemma handled_examples:
  "handled_env env_up h t" "handled_env env_silent h t" "handled_env env_unresolvable h t"
  by (simp_all add: handled_env_def env_up_def env_silent_def env_unresolvable_def no_such_host_def)

lemma parse_plain: "parse_server E ''8.8.8.8'' = Inr (''8.8.8.8'', 53)"
  by (simp add: parse_server_def)

lemma resolve_ip_literal:
  "gethostbyname E host = Inl ea \<Longrightarrow> is_gaierror ea \<Longrightarrow>
   new_Resolver E \<noteq> None \<or> (\<exists>e2. system_resolve E host t = Inl e2) \<Longrightarrow>
   fst (resolve_ip E host t) = Inr host"
  by (auto simp: resolve_ip_def split: option.splits sum.splits)

text \<open>
  C4, as the claim states it, fails. The host part is taken as the address when both
  lookups fail, but the attempt then raises when the resolver library does not take
  the literal as a name server: \<^verbatim>\<open>resolver.nameservers = [ip]\<close> at line 55 stands
  outside every \<^verbatim>\<open>try\<close>. And a first lookup that fails with another exception
  than a \<^verbatim>\<open>gaierror\<close> does not reach the fallback at all.
\<close>

theorem literal_rejected_counterexample:
  "fst (resolve_ip env_strict ''ns1.example.invalid'' 5) = Inr ''ns1.example.invalid'' \<and>
   fst (test_dns_latency env_strict ''ns1.example.invalid'' ''baidu.com'' 5 1)
     = Inl (Library not_an_address) \<and>
   fst (resolve_ip env_bad_label ''ns1..example.com'' 5) = Inl (Library idna_error)"
  by (simp add: test_dns_latency_def env_strict_def env_bad_label_def parse_server_def
      resolve_ip_def no_such_host_def idna_error_def test_port_connectivity_def)

text \<open>
  C4, amended: when the first lookup of the host part fails with a \<^verbatim>\<open>gaierror\<close>
  and the second lookup fails in any way, the address is the host part itself,
  unchanged; the port is 53 and the host part the whole text when there is no colon.
  The port check and the status line are then about that literal, and when the
  resolver library takes the literal as a name server the attempt returns a result,
  after one query to the literal at the port.
\<close>

theorem literal_fallback:
  "(gethostbyname E host = Inl ea \<and> is_gaierror ea \<and>
      (new_Resolver E \<noteq> None \<or> (\<exists>e2. system_resolve E host t = Inl e2)) \<longrightarrow>
      fst (resolve_ip E host t) = Inr host) \<and>
   (CHR '':'' \<notin> set spec \<longrightarrow> parse_server E spec = Inr (spec, 53)) \<and>
   (new_Resolver E = None \<and> parse_server E spec = Inr (host, port) \<and>
      gethostbyname E host = Inl ea \<and> is_gaierror ea \<and> system_resolve E host t = Inl eb \<and>
      set_nameservers E [host] = None \<longrightarrow>
      (\<exists>out. fst (test_dns_latency E spec d t r) = Inr out) \<and>
      Print (status_line host port (fst (test_port_connectivity E host port 2)))
        \<in> set (snd (test_dns_latency E spec d t r)) \<and>
      Query host port d \<in> set (snd (test_dns_latency E spec d t r)))"
proof -
  have 1: "gethostbyname E host = Inl ea \<and> is_gaierror ea \<and>
      (new_Resolver E \<noteq> None \<or> (\<exists>e2. system_resolve E host t = Inl e2)) \<longrightarrow>
      fst (resolve_ip E host t) = Inr host"
    using resolve_ip_literal by blast
  have 2: "CHR '':'' \<notin> set spec \<longrightarrow> parse_server E spec = Inr (spec, 53)"
    by (simp add: parse_server_def)
  have 3: "new_Resolver E = None \<and> parse_server E spec = Inr (host, port) \<and>
      gethostbyname E host = Inl ea \<and> is_gaierror ea \<and> system_resolve E host t = Inl eb \<and>
      set_nameservers E [host] = None \<longrightarrow>
      (\<exists>out. fst (test_dns_latency E spec d t r) = Inr out) \<and>
      Print (status_line host port (fst (test_port_connectivity E host port 2)))
        \<in> set (snd (test_dns_latency E spec d t r)) \<and>
      Query host port d \<in> set (snd (test_dns_latency E spec d t r))"
  proof
    assume h: "new_Resolver E = None \<and> parse_server E spec = Inr (host, port) \<and>
      gethostbyname E host = Inl ea \<and> is_gaierror ea \<and> system_resolve E host t = Inl eb \<and>
      set_nameservers E [host] = None"
    then have ri: "resolve_ip E host t = (Inr host, [SysQuery host])"
      by (simp add: resolve_ip_def)
    obtain po tr2 where pc: "test_port_connectivity E host port 2 = (po, tr2)"
      by (cases "test_port_connectivity E host port 2")
    show "(\<exists>out. fst (test_dns_latency E spec d t r) = Inr out) \<and>
      Print (status_line host port (fst (test_port_connectivity E host port 2)))
        \<in> set (snd (test_dns_latency E spec d t r)) \<and>
      Query host port d \<in> set (snd (test_dns_latency E spec d t r))"
    proof (cases "resolve E host port t d")
      case None
      with h ri pc show ?thesis
        by (auto simp: test_dns_latency_def split: prod.splits)
    next
      case (Some e)
      with h ri pc show ?thesis
        by (auto simp: test_dns_latency_def)
    qed
  qed
  from 1 2 3 show ?thesis by (intro conjI)
qed

theorem literal_fallback_witness:
  "fst (resolve_ip env_unresolvable ''some-hostname-that-fails-all-resolution.invalid'' 5)
     = Inr ''some-hostname-that-fails-all-resolution.invalid'' \<and>
   parse_server env_unresolvable ''some-hostname-that-fails-all-resolution.invalid''
     = Inr (''some-hostname-that-fails-all-resolution.invalid'', 53) \<and>
   \<not> fst (test_port_connectivity env_unresolvable
          ''some-hostname-that-fails-all-resolution.invalid'' 53 2) \<and>
   (\<exists>out. fst (test_dns_latency env_unresolvable
             ''some-hostname-that-fails-all-resolution.invalid'' ''baidu.com'' 5 1) = Inr out) \<and>
   Query ''some-hostname-that-fails-all-resolution.invalid'' 53 ''baidu.com''
     \<in> set (snd (test_dns_latency env_unresolvable
                ''some-hostname-that-fails-all-resolution.invalid'' ''baidu.com'' 5 1))"
proof -
  let ?h = "''some-hostname-that-fails-all-resolution.invalid''"
  note th = literal_fallback [where E = env_unresolvable and host = ?h and spec = ?h
      and port = 53 and t = 5 and d = "''baidu.com''" and r = 1 and ea = no_such_host
      and eb = nxdomain]
  have g: "gethostbyname env_unresolvable ?h = Inl no_such_host" "is_gaierror no_such_host"
    "system_resolve env_unresolvable ?h 5 = Inl nxdomain" "new_Resolver env_unresolvable = None"
    "set_nameservers env_unresolvable [?h] = None"
    by (simp_all add: env_unresolvable_def no_such_host_def)
  have c: "CHR '':'' \<notin> set ?h" by simp
  from th c have p: "parse_server env_unresolvable ?h = Inr (?h, 53)" by blast
  from th g have 1: "fst (resolve_ip env_unresolvable ?h 5) = Inr ?h" by blast
  have 2: "\<not> fst (test_port_connectivity env_unresolvable ?h 53 2)"
    by (simp add: test_port_connectivity_def env_unresolvable_def)
  from th g p have 3: "(\<exists>out. fst (test_dns_latency env_unresolvable ?h ''baidu.com'' 5 1) = Inr out)"
    and 4: "Query ?h 53 ''baidu.com'' \<in> set (snd (test_dns_latency env_unresolvable ?h ''baidu.com'' 5 1))"
    by blast+
  from 1 p 2 3 4 show ?thesis by (intro conjI)
qed

subsection \<open>The run\<close>

lemma parse_server_not_zerodiv: "parse_server E spec \<noteq> Inl ZeroDivisionError"
  by (simp add: parse_server_def py_int_def Let_def split: prod.splits option.splits)

lemma resolve_ip_not_zerodiv: "fst (resolve_ip E host t) \<noteq> Inl ZeroDivisionError"
  by (simp add: resolve_ip_def split: sum.splits option.splits)

lemma test_dns_latency_not_zerodiv:
  "fst (test_dns_latency E spec d t r) \<noteq> Inl ZeroDivisionError"
proof (cases E spec d t r rule: test_dns_latency_cases)
  case (parse e)
  then show ?thesis using parse_server_not_zerodiv [of E spec] by auto
next
  case (lookup host port e tr1)
  then show ?thesis using resolve_ip_not_zerodiv [of E host t] by auto
qed simp_all

lemma timed_query_old_not_zerodiv:
  "fst (timed_query_old E ip p d t) \<noteq> Inl ZeroDivisionError"
  by (simp add: timed_query_old_def split: option.splits prod.splits)

lemma test_dns_latency_old_not_zerodiv:
  "fst (test_dns_latency_old E spec d t r) \<noteq> Inl ZeroDivisionError"
  using timed_query_old_not_zerodiv
  by (auto simp: test_dns_latency_old_def py_int_def Let_def split: option.splits prod.splits)

lemma loop_body_not_zerodiv:
  assumes "\<And>E spec d t r. fst (probe E spec d t r) \<noteq> Inl ZeroDivisionError"
  shows "loop_body probe envs a i st \<noteq> Inl ZeroDivisionError"
  using assms [of "envs i" "arg_dns a" "arg_domain a" "arg_timeout a" 1]
  by (auto simp: loop_body_def split: prod.splits sum.splits)

lemma run_attempts_not_zerodiv:
  assumes "\<And>E spec d t r. fst (probe E spec d t r) \<noteq> Inl ZeroDivisionError"
  shows "run_attempts probe envs a js st \<noteq> Inl ZeroDivisionError"
  by (induction js arbitrary: st) (auto simp: loop_body_not_zerodiv [OF assms] split: sum.splits)

lemma main_zero_division_iff:
  assumes "\<And>E spec d t r. fst (probe E spec d t r) \<noteq> Inl ZeroDivisionError"
  shows "main probe envs a = Inl ZeroDivisionError \<longleftrightarrow> arg_count a = 0"
  using run_attempts_not_zerodiv [OF assms, where envs = envs and a = a
      and js = "[0 ..< nat (arg_count a)]" and st = init_state]
  by (auto simp: main_def split: sum.splits)

text \<open>
  C10: the rate of the summary is \<^verbatim>\<open>success_count/args.count*100\<close> with nothing before
  it that looks at the count. In both scripts \<open>main\<close> raises ZeroDivisionError
  exactly when the count is 0; with the count 0 the loop itself runs through (no
  attempt, the counters as they began), and the error comes from the summary. No
  attempt raises that error, so with a count of 1 or more it does not arise.
\<close>

theorem main_zero_division:
  "(main test_dns_latency envs a = Inl ZeroDivisionError \<longleftrightarrow> arg_count a = 0) \<and>
   (main test_dns_latency_old envs a = Inl ZeroDivisionError \<longleftrightarrow> arg_count a = 0) \<and>
   (arg_count a = 0 \<longrightarrow>
      run_attempts probe envs a [0 ..< nat (arg_count a)] init_state = Inr init_state)"
  using main_zero_division_iff [where probe = test_dns_latency and envs = envs and a = a,
      OF test_dns_latency_not_zerodiv]
    main_zero_division_iff [where probe = test_dns_latency_old and envs = envs and a = a,
      OF test_dns_latency_old_not_zerodiv]
  by simp

theorem main_zero_division_witness:
  "arg_count args_zero = 0 \<and>
   main test_dns_latency (\<lambda>i. env_up) args_zero = Inl ZeroDivisionError \<and>
   main test_dns_latency_old (\<lambda>i. env_up) args_zero = Inl ZeroDivisionError \<and>
   run_attempts test_dns_latency (\<lambda>i. env_up) args_zero [0 ..< nat (arg_count args_zero)]
     init_state = Inr init_state"
  using main_zero_division [where envs = "\<lambda>i. env_up" and a = args_zero
      and probe = test_dns_latency]
  by (simp add: args_zero_def)

lemma loop_body_returns:
  assumes "handled_env (envs i) host (arg_timeout a)"
    and "parse_server (envs i) (arg_dns a) = Inr (host, port)"
  shows "\<exists>st'. loop_body test_dns_latency envs a i st = Inr st'"
proof -
  from test_dns_latency_returns [OF assms, of "arg_domain a" 1]
  obtain out where
    "fst (test_dns_latency (envs i) (arg_dns a) (arg_domain a) (arg_timeout a) 1) = Inr out"
    by blast
  then show ?thesis
    by (cases "test_dns_latency (envs i) (arg_dns a) (arg_domain a) (arg_timeout a) 1"; cases out)
       (simp add: loop_body_def)
qed

lemma run_attempts_returns:
  "\<forall>i\<in>set js. \<exists>host port. parse_server (envs i) (arg_dns a) = Inr (host, port) \<and>
       handled_env (envs i) host (arg_timeout a) \<Longrightarrow>
   \<exists>st'. run_attempts test_dns_latency envs a js st = Inr st'"
proof (induction js arbitrary: st)
  case Nil
  then show ?case by simp
next
  case (Cons i js)
  then obtain host port where "parse_server (envs i) (arg_dns a) = Inr (host, port)"
    and "handled_env (envs i) host (arg_timeout a)"
    by auto
  then have "\<exists>st1. loop_body test_dns_latency envs a i st = Inr st1"
    using loop_body_returns by blast
  then obtain st1 where "loop_body test_dns_latency envs a i st = Inr st1" ..
  with Cons show ?case by simp
qed

lemma loop_body_step:
  "loop_body probe envs a i st = Inr st' \<Longrightarrow>
     \<exists>s r. results st' = results st @ [(s, r)] \<and>
            success_count st' = success_count st + (if s then 1 else 0) \<and>
            latency_list st' = latency_list st @ (if s then [r] else [])"
  by (auto simp: loop_body_def split: prod.splits sum.splits)

lemma run_attempts_steps:
  "run_attempts probe envs a is st = Inr st' \<Longrightarrow>
     \<exists>new. results st' = results st @ new \<and> length new = length is \<and>
            success_count st' = success_count st + int (length (filter fst new)) \<and>
            latency_list st' = latency_list st @ map snd (filter fst new)"
proof (induction "is" arbitrary: st)
  case Nil
  then show ?case by simp
next
  case (Cons i "is")
  from Cons.prems obtain st1 where b: "loop_body probe envs a i st = Inr st1"
    and r: "run_attempts probe envs a is st1 = Inr st'"
    by (auto split: sum.splits)
  from loop_body_step [OF b] obtain s r0 where 1: "results st1 = results st @ [(s, r0)]"
    "success_count st1 = success_count st + (if s then 1 else 0)"
    "latency_list st1 = latency_list st @ (if s then [r0] else [])"
    by blast
  from Cons.IH [OF r] obtain new where 2: "results st' = results st1 @ new" "length new = length is"
    "success_count st' = success_count st1 + int (length (filter fst new))"
    "latency_list st' = latency_list st1 @ map snd (filter fst new)"
    by blast
  show ?case
    by (rule exI [of _ "(s, r0) # new"]) (simp add: 1 2)
qed


lemma run_attempts_counts:
  assumes "run_attempts probe envs a [0 ..< k] init_state = Inr sk"
  shows "length (results sk) = k \<and>
     success_count sk = int (length (filter fst (results sk))) \<and>
     success_count sk + int (length (filter (\<lambda>r. \<not> fst r) (results sk))) = int k \<and>
     0 \<le> success_count sk \<and> success_count sk \<le> int k \<and>
     int (length (latency_list sk)) = success_count sk \<and>
     latency_list sk = map snd (filter fst (results sk))"
proof -
  from run_attempts_steps [OF assms] obtain new where n: "results sk = new" "length new = k"
    "success_count sk = int (length (filter fst new))"
    "latency_list sk = map snd (filter fst new)"
    by (auto simp: init_state_def)
  have "length (filter fst new) + length (filter (\<lambda>r. \<not> fst r) new) = length new"
    by (rule sum_length_filter_compl)
  moreover have "length (filter fst new) \<le> length new" by (rule length_filter_le)
  ultimately show ?thesis using n by auto
qed



lemma upt_5: "[0 ..< 5] = [0, 1, 2, 3, 4::nat]"
  by (simp add: upt_rec)

text \<open>
  C1, as the claim states it, fails: \<^verbatim>\<open>int(port_part)\<close> at line 31 stands outside
  every \<^verbatim>\<open>try\<close>, so the ValueError for \<^verbatim>\<open>8.8.8.8:abc\<close> leaves the attempt
  and ends the run at its first attempt; the first lookup is guarded by
  \<^verbatim>\<open>except socket.gaierror\<close> only; and the making of the resolver object and the
  assignment of the name servers are not guarded.
\<close>

theorem raising_attempt_counterexample:
  "fst (test_dns_latency env_up ''8.8.8.8:abc'' ''baidu.com'' 5 1) = Inl (ValueError ''abc'') \<and>
   main test_dns_latency (\<lambda>i. env_up) args_bad_port = Inl (ValueError ''abc'') \<and>
   fst (test_dns_latency env_bad_label ''ns1..example.com'' ''baidu.com'' 5 1)
     = Inl (Library idna_error) \<and>
   fst (test_dns_latency env_no_config ''8.8.8.8'' ''baidu.com'' 5 1)
     = Inl (Library no_resolver_configuration) \<and>
   fst (test_dns_latency env_strict ''ns1.example.invalid'' ''baidu.com'' 5 1)
     = Inl (Library not_an_address)"
proof -
  have 1: "test_dns_latency env_up ''8.8.8.8:abc'' ''baidu.com'' 5 1 = (Inl (ValueError ''abc''), [])"
    by (simp add: test_dns_latency_def env_up_def parse_bad_port)
  have 2: "main test_dns_latency (\<lambda>i. env_up) args_bad_port = Inl (ValueError ''abc'')"
    by (simp add: main_def args_bad_port_def upt_5 loop_body_def 1)
  have 3: "fst (test_dns_latency env_bad_label ''ns1..example.com'' ''baidu.com'' 5 1)
     = Inl (Library idna_error)"
    by (simp add: test_dns_latency_def env_bad_label_def parse_server_def resolve_ip_def
        idna_error_def)
  have 4: "fst (test_dns_latency env_no_config ''8.8.8.8'' ''baidu.com'' 5 1)
     = Inl (Library no_resolver_configuration)"
    by (simp add: test_dns_latency_def env_no_config_def)
  have 5: "fst (test_dns_latency env_strict ''ns1.example.invalid'' ''baidu.com'' 5 1)
     = Inl (Library not_an_address)"
    by (simp add: test_dns_latency_def env_strict_def parse_server_def resolve_ip_def
        no_such_host_def test_port_connectivity_def)
  from 1 2 3 4 5 show ?thesis by simp
qed

text \<open>
  C1, amended: an attempt returns a (success, result) pair whenever the port of the
  server given parses (or there is none) and the environment raises only what the
  code handles, that is, the resolver library makes its object, the first lookup
  fails with a \<^verbatim>\<open>gaierror\<close> if it fails, and the library takes as its name server
  the address that the lookups give (no other list need be accepted); every
  exception of the second lookup, of the port check and of the query is caught. A run
  of \<open>n\<close> such attempts completes all \<open>n\<close>.
\<close>

theorem attempts_return:
  "(handled_env E host t \<and> parse_server E spec = Inr (host, port) \<longrightarrow>
      (\<exists>out. fst (test_dns_latency E spec d t r) = Inr out)) \<and>
   ((\<forall>i<n. \<exists>host port. parse_server (envs i) (arg_dns a) = Inr (host, port) \<and>
        handled_env (envs i) host (arg_timeout a)) \<longrightarrow>
      (\<exists>st. run_attempts test_dns_latency envs a [0 ..< n] init_state = Inr st \<and>
         length (results st) = n))"
proof -
  have 1: "handled_env E host t \<and> parse_server E spec = Inr (host, port) \<longrightarrow>
      (\<exists>out. fst (test_dns_latency E spec d t r) = Inr out)"
    using test_dns_latency_returns by blast
  have 2: "(\<forall>i<n. \<exists>host port. parse_server (envs i) (arg_dns a) = Inr (host, port) \<and>
        handled_env (envs i) host (arg_timeout a)) \<longrightarrow>
      (\<exists>st. run_attempts test_dns_latency envs a [0 ..< n] init_state = Inr st \<and>
         length (results st) = n)"
  proof
    assume "\<forall>i<n. \<exists>host port. parse_server (envs i) (arg_dns a) = Inr (host, port) \<and>
        handled_env (envs i) host (arg_timeout a)"
    then have "\<forall>i\<in>set [0 ..< n]. \<exists>host port.
        parse_server (envs i) (arg_dns a) = Inr (host, port) \<and>
        handled_env (envs i) host (arg_timeout a)"
      by simp
    then have "\<exists>st. run_attempts test_dns_latency envs a [0 ..< n] init_state = Inr st"
      by (rule run_attempts_returns)
    then obtain st where st: "run_attempts test_dns_latency envs a [0 ..< n] init_state = Inr st" ..
    from run_attempts_counts [OF st] st
    show "\<exists>st. run_attempts test_dns_latency envs a [0 ..< n] init_state = Inr st \<and>
        length (results st) = n"
      by blast
  qed
  from 1 2 show ?thesis by (rule conjI)
qed

theorem attempts_return_witness:
  "handled_env env_validating ''8.8.8.8'' 5 \<and>
   parse_server env_validating ''8.8.8.8:5353'' = Inr (''8.8.8.8'', 5353) \<and>
   (\<exists>out. fst (test_dns_latency env_validating ''8.8.8.8:5353'' ''baidu.com'' 5 1) = Inr out) \<and>
   handled_env env_unresolvable ''ns1.example.invalid'' 5 \<and>
   (\<exists>out. fst (test_dns_latency env_unresolvable ''ns1.example.invalid'' ''baidu.com'' 5 1)
      = Inr out) \<and>
   (\<exists>st. run_attempts test_dns_latency (\<lambda>i. env_validating) args_two [0 ..< 2] init_state
      = Inr st \<and> length (results st) = 2)"
proof -
  have h: "handled_env env_validating ''8.8.8.8'' t" for t
    by (simp add: handled_env_def env_validating_def resolve_ip_def)
  have p: "parse_server env_validating ''8.8.8.8:5353'' = Inr (''8.8.8.8'', 5353)"
    by (simp add: parse_server_def split_first_def py_int_5353)
  have hu: "handled_env env_unresolvable ''ns1.example.invalid'' 5"
    by (rule handled_examples)
  have pu: "parse_server env_unresolvable ''ns1.example.invalid''
      = Inr (''ns1.example.invalid'', 53)"
    by (simp add: parse_server_def)
  have hr: "\<forall>i<2. \<exists>host port.
      parse_server env_validating (arg_dns args_two) = Inr (host, port) \<and>
      handled_env env_validating host (arg_timeout args_two)"
    using h by (simp add: args_two_def parse_plain)
  note th1 = attempts_return [where E = env_validating and host = "''8.8.8.8''"
      and spec = "''8.8.8.8:5353''" and port = 5353 and d = "''baidu.com''"
      and t = 5 and r = 1]
  note th2 = attempts_return [where E = env_unresolvable and host = "''ns1.example.invalid''"
      and spec = "''ns1.example.invalid''" and port = 53 and d = "''baidu.com''"
      and t = 5 and r = 1]
  note th3 = attempts_return [where a = args_two and n = 2 and envs = "\<lambda>i. env_validating"]
  from th1 h p have 1: "\<exists>out. fst (test_dns_latency env_validating ''8.8.8.8:5353''
      ''baidu.com'' 5 1) = Inr out"
    by blast
  from th2 hu pu have 2: "\<exists>out. fst (test_dns_latency env_unresolvable ''ns1.example.invalid''
      ''baidu.com'' 5 1) = Inr out"
    by blast
  from th3 hr have 3: "\<exists>st. run_attempts test_dns_latency (\<lambda>i. env_validating) args_two
      [0 ..< 2] init_state = Inr st \<and> length (results st) = 2"
    by blast
  from h p 1 hu 2 3 show ?thesis by (intro conjI)
qed


end
